theory Spec2Isabelle
  imports Main "HOL-Library.Sublist"
begin

section \<open>AxiosService: a shallow embedding of \<^verbatim>\<open>src/index.js\<close>\<close>

text \<open>
  The class \<^verbatim>\<open>AxiosService\<close> wraps an axios instance with a response cache, a registry
  of pending requests, a token manager and a central error handler. The embedding keeps
  the fields of the class in a record, threads that record through every method, and
  returns a rejected promise as \<open>Inl\<close> and a fulfilled one as \<open>Inr\<close>.

  What the class does not contain is taken as a parameter (record \<open>env\<close>): the function
  \<^verbatim>\<open>JSON.stringify\<close>, the HTTP adapter behind the axios instance, and the server behind
  the refresh URL. Both network parties are oracles indexed by the number of exchanges
  issued so far, so every theorem holds for every behaviour of the network.
\<close>

subsection \<open>JavaScript values\<close>

datatype jsval =
    JUndefined
  | JNull
  | JBool bool
  | JNum int
  | JStr string
  | JObj "(string \<times> jsval) list"

text \<open>The truthiness test of \<^verbatim>\<open>if (v)\<close>, \<^verbatim>\<open>!v\<close> and \<^verbatim>\<open>v || w\<close>.\<close>

fun truthy :: "jsval \<Rightarrow> bool" where
  "truthy JUndefined = False"
| "truthy JNull = False"
| "truthy (JBool b) = b"
| "truthy (JNum n) = (n \<noteq> 0)"
| "truthy (JStr s) = (s \<noteq> [])"
| "truthy (JObj kvs) = True"

subsection \<open>Requests, responses, errors\<close>

datatype http_method = GET | POST | PUT | DELETE

fun toUpperCase :: "http_method \<Rightarrow> string" where
  "toUpperCase GET = ''GET''"
| "toUpperCase POST = ''POST''"
| "toUpperCase PUT = ''PUT''"
| "toUpperCase DELETE = ''DELETE''"

text \<open>
  The request configuration object. \<open>cancelPrevious\<close> is \<open>None\<close> when the caller did
  not set it; \<open>cancelToken\<close> names the cancel token source that owns the token;
  \<open>metadata\<close> is the \<^verbatim>\<open>startTime\<close> in milliseconds.
\<close>

record req_config =
  "method" :: http_method
  url :: string
  params :: jsval
  body :: jsval
  headers :: "(string \<times> string) list"
  cancelPrevious :: "bool option"
  cancelToken :: "nat option"
  metadata :: "int option"

record response =
  status :: int
  data :: jsval
  config :: req_config

text \<open>
  An axios error: \<open>response\<close> is present when the server answered, \<open>request\<close> is
  truthy when the request was made, \<open>errconfig\<close> is \<^verbatim>\<open>error.config\<close>.
\<close>

record axios_error =
  response :: "response option"
  request :: bool
  errconfig :: req_config
  message :: string

text \<open>
  What the adapter does with a dispatched request: it fulfils with a response, or it
  rejects with an error that carries a response, or one that carries only the request
  (no answer arrived), or one that carries neither (for instance a cancellation).
\<close>

datatype wire_reply =
    Fulfilled int jsval
  | RejectedWithResponse int jsval
  | RejectedNoResponse string
  | RejectedSetup string

text \<open>
  What the refresh endpoint does: by its contract the body of a successful answer is
  \<^verbatim>\<open>{token: string, expiresIn: number}\<close>, the number in seconds.
\<close>

datatype refresh_reply =
    RefreshOk string int
  | RefreshFailed axios_error

record env =
  JSON_stringify :: "jsval \<Rightarrow> string"
  adapter :: "nat \<Rightarrow> req_config \<Rightarrow> nat \<times> wire_reply"
  refresh_post :: "nat \<Rightarrow> nat \<times> refresh_reply"

text \<open>
  \<open>adapter e n c\<close> is the outcome of the \<open>n\<close>-th dispatch, of configuration \<open>c\<close>, and
  the milliseconds it took; \<open>refresh_post e n\<close> is the same for the \<open>n\<close>-th POST to the
  refresh URL.
\<close>

subsection \<open>The observable actions of the service\<close>

datatype console_line =
    RequestDuration "int option"
  | FailedToRefreshToken
  | Unauthorized
  | ResourceNotFound string
  | ErrorData jsval
  | ErrorStatus int
  | ErrorRequest
  | ErrorMessage string

datatype action =
    CacheLookup string
  | CacheStore string
  | Cancel nat
  | Untrack string
  | Track string nat
  | Dispatch nat
  | RefreshPost nat
  | Console console_line

subsection \<open>The response cache\<close>

text \<open>
  Modelled from the spec: the \<^verbatim>\<open>node-cache\<close> store behind \<^verbatim>\<open>this.cache\<close> is not part of the
  source. Section 3 of the specification gives its entry,
  \<^verbatim>\<open>{identity, value, insertedAt, ttl}\<close>, visible only while
  \<^verbatim>\<open>now < insertedAt + ttl\<close>; section 4.2 gives \<^verbatim>\<open>get\<close> (value or absent) and \<^verbatim>\<open>set\<close>.
  Times are in milliseconds.
\<close>

record cache_entry =
  cvalue :: jsval
  insertedAt :: int
  ttl :: int

type_synonym node_cache = "string \<rightharpoonup> cache_entry"

definition cache_get :: "node_cache \<Rightarrow> int \<Rightarrow> string \<Rightarrow> jsval" where
  "cache_get m t k =
     (case m k of
        None \<Rightarrow> JUndefined
      | Some en \<Rightarrow> if t < insertedAt en + ttl en then cvalue en else JUndefined)"

definition cache_set :: "node_cache \<Rightarrow> int \<Rightarrow> int \<Rightarrow> string \<Rightarrow> jsval \<Rightarrow> node_cache" where
  "cache_set m t life k v = m(k \<mapsto> \<lparr>cvalue = v, insertedAt = t, ttl = life\<rparr>)"

subsection \<open>The instance\<close>

record options =
  o_baseURL :: string
  o_timeout :: int
  o_headers :: "(string \<times> string) list"
  o_retry :: bool
  o_retryDelay :: int
  o_cacheEnabled :: bool
  o_cacheTTL :: int
  o_cacheCheckPeriod :: int
  o_globalErrorHandling :: bool
  o_performanceMonitoring :: bool
  o_requestCancellation :: bool
  o_refreshTokenURL :: string
  o_tokenRefreshEnabled :: bool
  o_tokenRefreshThreshold :: int

definition defaultConfig :: options where
  "defaultConfig =
     \<lparr>o_baseURL = ''https://api.example.com'',
      o_timeout = 10000,
      o_headers = [(''X-Custom-Header'', ''foobar'')],
      o_retry = False,
      o_retryDelay = 1000,
      o_cacheEnabled = True,
      o_cacheTTL = 100,
      o_cacheCheckPeriod = 120,
      o_globalErrorHandling = True,
      o_performanceMonitoring = True,
      o_requestCancellation = True,
      o_refreshTokenURL = ''https://api.example.com/refresh-token'',
      o_tokenRefreshEnabled = True,
      o_tokenRefreshThreshold = 300\<rparr>"

text \<open>
  The fields of the class, followed by the bookkeeping of the embedding: the clock
  \<open>now\<close> read by \<^verbatim>\<open>new Date()\<close>, the number of dispatches (\<open>sent\<close>) and of refresh
  exchanges (\<open>refreshes\<close>) issued so far, the next fresh cancel token source, and the
  trace of actions in the order they happened.
\<close>

record service =
  defaultHeaders :: "(string \<times> string) list"
  cache :: "node_cache option"
  stdTTL :: int
  retry :: bool
  retryDelay :: int
  globalErrorHandling :: bool
  performanceMonitoring :: bool
  requestCancellation :: bool
  refreshTokenURL :: string
  tokenRefreshEnabled :: bool
  tokenRefreshThreshold :: int
  pendingRequests :: "string \<rightharpoonup> nat"
  token :: jsval
  tokenExpiration :: "int option"
  now :: int
  sent :: nat
  refreshes :: nat
  nextSource :: nat
  trace :: "action list"

text \<open>
  The constructor, given the merged options (\<open>defaultConfig\<close> overridden by the
  caller's) and the time of construction. \<^verbatim>\<open>this.cache\<close> is \<^verbatim>\<open>null\<close> when caching is off;
  \<^verbatim>\<open>this.token\<close> and \<^verbatim>\<open>this.tokenExpiration\<close> start undefined. Of the axios instance
  the embedding keeps the default headers. The interceptors are registered once, under
  the flags \<^verbatim>\<open>performanceMonitoring\<close> and \<^verbatim>\<open>requestCancellation\<close>, which nothing changes
  afterwards; the pre-send stage below reads the flags instead. The listeners of
  \<^verbatim>\<open>setupGlobalErrorHandling\<close> only print to the console of the window and are left out.
\<close>

definition constructor :: "options \<Rightarrow> int \<Rightarrow> service" where
  "constructor opts t =
     \<lparr>defaultHeaders = o_headers opts,
      cache = (if o_cacheEnabled opts then Some Map.empty else None),
      stdTTL = o_cacheTTL opts,
      retry = o_retry opts,
      retryDelay = o_retryDelay opts,
      globalErrorHandling = o_globalErrorHandling opts,
      performanceMonitoring = o_performanceMonitoring opts,
      requestCancellation = o_requestCancellation opts,
      refreshTokenURL = o_refreshTokenURL opts,
      tokenRefreshEnabled = o_tokenRefreshEnabled opts,
      tokenRefreshThreshold = o_tokenRefreshThreshold opts,
      pendingRequests = Map.empty,
      token = JUndefined,
      tokenExpiration = None,
      now = t,
      sent = 0,
      refreshes = 0,
      nextSource = 0,
      trace = []\<rparr>"

definition log :: "service \<Rightarrow> console_line \<Rightarrow> service" where
  "log s l = s\<lparr>trace := trace s @ [Console l]\<rparr>"

subsection \<open>The token manager\<close>

definition isTokenExpired :: "service \<Rightarrow> bool" where
  "isTokenExpired s = (case tokenExpiration s of None \<Rightarrow> True | Some t \<Rightarrow> t \<le> now s)"

text \<open>
  \<^verbatim>\<open>refreshToken\<close> suspends once, at \<^verbatim>\<open>await axios.post(...)\<close>. \<open>refreshToken_begin\<close> is
  the part before the suspension: it issues the exchange and returns its index.
  \<open>refreshToken_end\<close> is the part after it, run on the reply.
\<close>

definition refreshToken_begin :: "service \<Rightarrow> service \<times> nat" where
  "refreshToken_begin s =
     (s\<lparr>refreshes := Suc (refreshes s), trace := trace s @ [RefreshPost (refreshes s)]\<rparr>,
      refreshes s)"

definition refreshToken_end :: "service \<Rightarrow> refresh_reply \<Rightarrow> service \<times> (axios_error + unit)" where
  "refreshToken_end s r =
     (case r of
        RefreshOk tok expiresIn \<Rightarrow>
          (s\<lparr>token := JStr tok, tokenExpiration := Some (now s + expiresIn * 1000)\<rparr>, Inr ())
      | RefreshFailed err \<Rightarrow> (log s FailedToRefreshToken, Inl err))"

definition refreshToken :: "env \<Rightarrow> service \<Rightarrow> service \<times> (axios_error + unit)" where
  "refreshToken e s =
     (let (s1, n) = refreshToken_begin s;
          (took, r) = refresh_post e n
      in refreshToken_end (s1\<lparr>now := now s1 + int took\<rparr>) r)"

text \<open>
  A call of an async method that is still suspended is \<open>Pending n\<close>, waiting for
  refresh exchange \<open>n\<close>; otherwise it is settled.
\<close>

datatype 'a promise = Pending nat | Resolved 'a | Rejected axios_error

definition getToken_begin :: "service \<Rightarrow> service \<times> jsval promise" where
  "getToken_begin s =
     (if \<not> truthy (token s) \<or> isTokenExpired s
      then (let (s1, n) = refreshToken_begin s in (s1, Pending n))
      else (s, Resolved (token s)))"

definition getToken_resume :: "service \<Rightarrow> refresh_reply \<Rightarrow> service \<times> jsval promise" where
  "getToken_resume s r =
     (case refreshToken_end s r of
        (s1, Inl err) \<Rightarrow> (s1, Rejected err)
      | (s1, Inr u) \<Rightarrow> (s1, Resolved (token s1)))"

text \<open>One call of \<^verbatim>\<open>getToken\<close> run to its end with nothing else in between.\<close>

definition getToken :: "env \<Rightarrow> service \<Rightarrow> service \<times> (axios_error + jsval)" where
  "getToken e s =
     (if \<not> truthy (token s) \<or> isTokenExpired s
      then (case refreshToken e s of
              (s1, Inl err) \<Rightarrow> (s1, Inl err)
            | (s1, Inr u) \<Rightarrow> (s1, Inr (token s1)))
      else (s, Inr (token s)))"

text \<open>
  Logically concurrent callers. JavaScript runs one task at a time and switches only
  at an \<^verbatim>\<open>await\<close>, so a run is a list of events: a task calls \<^verbatim>\<open>getToken\<close> (and runs up to
  its suspension), refresh exchange \<open>n\<close> completes (and the task waiting for it runs to
  its end), or time passes.
\<close>

datatype event = CallGetToken | Settle nat | Advance nat

fun settle_tasks ::
  "refresh_reply \<Rightarrow> nat \<Rightarrow> service \<Rightarrow> jsval promise list \<Rightarrow> service \<times> jsval promise list" where
  "settle_tasks r n s [] = (s, [])"
| "settle_tasks r n s (t # ts) =
     (case t of
        Pending m \<Rightarrow>
          (if m = n
           then (let (s1, t1) = getToken_resume s r;
                     (s2, ts2) = settle_tasks r n s1 ts
                 in (s2, t1 # ts2))
           else (let (s2, ts2) = settle_tasks r n s ts in (s2, t # ts2)))
      | Resolved v \<Rightarrow> (let (s2, ts2) = settle_tasks r n s ts in (s2, t # ts2))
      | Rejected err \<Rightarrow> (let (s2, ts2) = settle_tasks r n s ts in (s2, t # ts2)))"

fun run :: "env \<Rightarrow> event list \<Rightarrow> service \<times> jsval promise list \<Rightarrow> service \<times> jsval promise list" where
  "run e [] c = c"
| "run e (CallGetToken # es) (s, ts) =
     (let (s1, t) = getToken_begin s in run e es (s1, ts @ [t]))"
| "run e (Settle n # es) (s, ts) = run e es (settle_tasks (snd (refresh_post e n)) n s ts)"
| "run e (Advance d # es) (s, ts) = run e es (s\<lparr>now := now s + int d\<rparr>, ts)"

subsection \<open>The pending-request registry\<close>

definition getRequestId :: "env \<Rightarrow> req_config \<Rightarrow> string" where
  "getRequestId e c =
     toUpperCase (method c) @ url c @
     JSON_stringify e (if truthy (params c) then params c else JObj [])"

definition cancelPendingRequests :: "env \<Rightarrow> service \<Rightarrow> req_config \<Rightarrow> service" where
  "cancelPendingRequests e s c =
     (let requestId = getRequestId e c
      in case pendingRequests s requestId of
           Some src \<Rightarrow>
             s\<lparr>pendingRequests := (pendingRequests s)(requestId := None),
               trace := trace s @ [Cancel src, Untrack requestId]\<rparr>
         | None \<Rightarrow> s)"

definition trackRequest :: "env \<Rightarrow> service \<Rightarrow> req_config \<Rightarrow> nat \<Rightarrow> service" where
  "trackRequest e s c src =
     (let requestId = getRequestId e c
      in s\<lparr>pendingRequests := (pendingRequests s)(requestId \<mapsto> src),
           trace := trace s @ [Track requestId src]\<rparr>)"

subsection \<open>The interceptors\<close>

text \<open>
  The request interceptor of \<^verbatim>\<open>setupRequestCancellation\<close>: a fresh cancel token source,
  its token on the configuration, the cancellation of a registered request of the same
  identity unless \<^verbatim>\<open>cancelPrevious\<close> is \<^verbatim>\<open>false\<close>, and the registration of this one.
\<close>

definition cancellation_interceptor :: "env \<Rightarrow> service \<Rightarrow> req_config \<Rightarrow> service \<times> req_config" where
  "cancellation_interceptor e s c =
     (let src = nextSource s;
          s1 = s\<lparr>nextSource := Suc src\<rparr>;
          c1 = c\<lparr>cancelToken := Some src\<rparr>;
          s2 = (if cancelPrevious c1 \<noteq> Some False then cancelPendingRequests e s1 c1 else s1)
      in (trackRequest e s2 c1 src, c1))"

text \<open>The two interceptors of \<^verbatim>\<open>setupPerformanceMonitoring\<close>.\<close>

definition monitoring_request_interceptor :: "service \<Rightarrow> req_config \<Rightarrow> req_config" where
  "monitoring_request_interceptor s c = c\<lparr>metadata := Some (now s)\<rparr>"

definition monitoring_response_interceptor :: "service \<Rightarrow> response \<Rightarrow> service" where
  "monitoring_response_interceptor s r =
     log s (RequestDuration (map_option (\<lambda>startTime. now s - startTime) (metadata (config r))))"

text \<open>
  The pre-send stage: every request interceptor the constructor registered. axios runs
  request interceptors last-registered first, so the cancellation interceptor runs
  before the monitoring one; they touch different fields.
\<close>

definition pre_send :: "env \<Rightarrow> service \<Rightarrow> req_config \<Rightarrow> service \<times> req_config" where
  "pre_send e s c =
     (let (s1, c1) = (if requestCancellation s then cancellation_interceptor e s c else (s, c));
          c2 = (if performanceMonitoring s1 then monitoring_request_interceptor s1 c1 else c1)
      in (s1, c2))"

definition post_receive :: "service \<Rightarrow> response \<Rightarrow> service" where
  "post_receive s r = (if performanceMonitoring s then monitoring_response_interceptor s r else s)"

subsection \<open>One exchange through the axios instance\<close>

text \<open>
  The headers of the instance are merged under those of the request: a default header
  is added only when the request has no header of that name.
\<close>

definition mergeHeaders :: "(string \<times> string) list \<Rightarrow> (string \<times> string) list \<Rightarrow> (string \<times> string) list" where
  "mergeHeaders own defaults = own @ filter (\<lambda>kv. map_of own (fst kv) = None) defaults"

text \<open>
  \<^verbatim>\<open>this.customAxios.request(config)\<close>: the default headers are merged in, the pre-send
  stage runs, the adapter is invoked, and a fulfilled response passes the response
  interceptor. The error of a rejection carries the dispatched configuration.
\<close>

definition customAxios_request :: "env \<Rightarrow> service \<Rightarrow> req_config \<Rightarrow> service \<times> (axios_error + response)" where
  "customAxios_request e s c0 =
     (let c = c0\<lparr>headers := mergeHeaders (headers c0) (defaultHeaders s)\<rparr>;
          (s1, c1) = pre_send e s c;
          n = sent s1;
          (took, reply) = adapter e n c1;
          s2 = s1\<lparr>sent := Suc n, now := now s1 + int took, trace := trace s1 @ [Dispatch n]\<rparr>
      in case reply of
           Fulfilled st d \<Rightarrow>
             (let r = \<lparr>status = st, data = d, config = c1\<rparr> in (post_receive s2 r, Inr r))
         | RejectedWithResponse st d \<Rightarrow>
             (s2, Inl \<lparr>response = Some \<lparr>status = st, data = d, config = c1\<rparr>,
                       request = True, errconfig = c1, message = []\<rparr>)
         | RejectedNoResponse msg \<Rightarrow>
             (s2, Inl \<lparr>response = None, request = True, errconfig = c1, message = msg\<rparr>)
         | RejectedSetup msg \<Rightarrow>
             (s2, Inl \<lparr>response = None, request = False, errconfig = c1, message = msg\<rparr>))"

subsection \<open>Success and error handling\<close>

text \<open>
  What a verb hands to its caller: a payload, or the whole response object of axios.
\<close>

datatype returned = Payload jsval | RawResponse response

definition handleSuccess :: "response \<Rightarrow> jsval" where
  "handleSuccess r = data r"

text \<open>
  \<^verbatim>\<open>handleError\<close>. In the 401 branch the \<^verbatim>\<open>.catch\<close> follows the \<^verbatim>\<open>.then\<close>, so it receives the
  failure of the refresh and the failure of the retried request alike, logs, and
  rejects with it; the value of a fulfilled retry is returned as axios gave it.
\<close>

definition handleError :: "env \<Rightarrow> service \<Rightarrow> axios_error \<Rightarrow> service \<times> (axios_error + returned)" where
  "handleError e s err =
     (case response err of
        Some r \<Rightarrow>
          if status r = 401 \<and> tokenRefreshEnabled s then
            (case refreshToken e (log s Unauthorized) of
               (s1, Inl refreshError) \<Rightarrow> (log s1 FailedToRefreshToken, Inl refreshError)
             | (s1, Inr u) \<Rightarrow>
                 (case customAxios_request e s1 (errconfig err) of
                    (s2, Inl retryError) \<Rightarrow> (log s2 FailedToRefreshToken, Inl retryError)
                  | (s2, Inr retried) \<Rightarrow> (s2, Inr (RawResponse retried))))
          else if status r = 404 then (log s (ResourceNotFound (url (config r))), Inl err)
          else (log (log s (ErrorData (data r))) (ErrorStatus (status r)), Inl err)
      | None \<Rightarrow>
          if request err then (log s ErrorRequest, Inl err)
          else (log s (ErrorMessage (message err)), Inl err))"

subsection \<open>The public surface\<close>

text \<open>
  The two uses of the cache in \<^verbatim>\<open>get\<close>:
  \<^verbatim>\<open>this.cache ? this.cache.get(cacheKey) : null\<close> and
  \<^verbatim>\<open>if (this.cache) this.cache.set(cacheKey, response.data)\<close>, with the standard time to
  live of the store, given in seconds.
\<close>

definition cache_lookup :: "service \<Rightarrow> string \<Rightarrow> service \<times> jsval" where
  "cache_lookup s k =
     (case cache s of
        Some m \<Rightarrow> (s\<lparr>trace := trace s @ [CacheLookup k]\<rparr>, cache_get m (now s) k)
      | None \<Rightarrow> (s, JNull))"

definition cache_store :: "service \<Rightarrow> string \<Rightarrow> jsval \<Rightarrow> service" where
  "cache_store s k v =
     (case cache s of
        Some m \<Rightarrow>
          s\<lparr>cache := Some (cache_set m (now s) (stdTTL s * 1000) k v),
            trace := trace s @ [CacheStore k]\<rparr>
      | None \<Rightarrow> s)"

text \<open>
  \<^verbatim>\<open>get(url, params = {}, config = {})\<close>. The cache is read first; a truthy cached value is
  returned at once. Otherwise the request goes through the axios instance, a fulfilled
  response has its data stored in the cache and returned, and a rejection goes to
  \<^verbatim>\<open>handleError\<close>.
\<close>

definition get :: "env \<Rightarrow> service \<Rightarrow> string \<Rightarrow> jsval \<Rightarrow> req_config \<Rightarrow> service \<times> (axios_error + returned)" where
  "get e s u params0 c =
     (let p = (if params0 = JUndefined then JObj [] else params0);
          cacheKey = u @ ''_'' @ JSON_stringify e p;
          (s0, cachedResponse) = cache_lookup s cacheKey
      in if truthy cachedResponse then (s0, Inr (Payload cachedResponse))
         else (case customAxios_request e s0 (c\<lparr>method := GET, url := u, params := p\<rparr>) of
                 (s1, Inr r) \<Rightarrow> (cache_store s1 cacheKey (data r), Inr (Payload (handleSuccess r)))
               | (s1, Inl err) \<Rightarrow> handleError e s1 err))"

definition post :: "env \<Rightarrow> service \<Rightarrow> string \<Rightarrow> jsval \<Rightarrow> req_config \<Rightarrow> service \<times> (axios_error + returned)" where
  "post e s u d c =
     (case customAxios_request e s (c\<lparr>method := POST, url := u, body := d\<rparr>) of
        (s1, Inr r) \<Rightarrow> (s1, Inr (Payload (handleSuccess r)))
      | (s1, Inl err) \<Rightarrow> handleError e s1 err)"

definition put :: "env \<Rightarrow> service \<Rightarrow> string \<Rightarrow> jsval \<Rightarrow> req_config \<Rightarrow> service \<times> (axios_error + returned)" where
  "put e s u d c =
     (case customAxios_request e s (c\<lparr>method := PUT, url := u, body := d\<rparr>) of
        (s1, Inr r) \<Rightarrow> (s1, Inr (Payload (handleSuccess r)))
      | (s1, Inl err) \<Rightarrow> handleError e s1 err)"

definition delete :: "env \<Rightarrow> service \<Rightarrow> string \<Rightarrow> req_config \<Rightarrow> service \<times> (axios_error + returned)" where
  "delete e s u c =
     (case customAxios_request e s (c\<lparr>method := DELETE, url := u\<rparr>) of
        (s1, Inr r) \<Rightarrow> (s1, Inr (Payload (handleSuccess r)))
      | (s1, Inl err) \<Rightarrow> handleError e s1 err)"

definition createInstance :: "options \<Rightarrow> int \<Rightarrow> service" where
  "createInstance opts t = constructor opts t"

subsection \<open>Concrete networks and requests\<close>

text \<open>
  Inputs for the closed theorems below: a stand-in for \<^verbatim>\<open>JSON.stringify\<close>, a network that
  answers the \<open>n\<close>-th dispatch with the \<open>n\<close>-th reply of a script (and is offline after
  the script ends), and the empty request configuration \<^verbatim>\<open>{}\<close>.
\<close>

fun stringify_sample :: "jsval \<Rightarrow> string" where
  "stringify_sample (JObj []) = ''{}''"
| "stringify_sample (JObj (kv # kvs)) = ''{'' @ fst kv @ ''}''"
| "stringify_sample v = ''null''"

definition refresh_request :: req_config where
  "refresh_request =
     \<lparr>method = POST, url = ''https://api.example.com/refresh-token'', params = JUndefined,
      body = JObj [(''refreshToken'', JStr ''your-refresh-token'')], headers = [],
      cancelPrevious = None, cancelToken = None, metadata = None\<rparr>"

definition offline :: axios_error where
  "offline = \<lparr>response = None, request = True, errconfig = refresh_request, message = ''Network Error''\<rparr>"

definition network :: "wire_reply list \<Rightarrow> refresh_reply list \<Rightarrow> env" where
  "network rs fs =
     \<lparr>JSON_stringify = stringify_sample,
      adapter = (\<lambda>n c. (5, if n < length rs then rs ! n else RejectedNoResponse ''Network Error'')),
      refresh_post = (\<lambda>n. (7, if n < length fs then fs ! n else RefreshFailed offline))\<rparr>"

definition plain :: req_config where
  "plain =
     \<lparr>method = GET, url = [], params = JUndefined, body = JUndefined, headers = [],
      cancelPrevious = None, cancelToken = None, metadata = None\<rparr>"

definition fresh :: service where
  "fresh = createInstance defaultConfig 0"

section \<open>Properties\<close>

subsection \<open>Auxiliary facts\<close>

lemmas pipeline_defs =
  pre_send_def cancellation_interceptor_def cancelPendingRequests_def trackRequest_def
  monitoring_request_interceptor_def post_receive_def monitoring_response_interceptor_def log_def

lemmas scenario_defs =
  get_def customAxios_request_def getRequestId_def mergeHeaders_def handleError_def
  handleSuccess_def refreshToken_def refreshToken_begin_def refreshToken_end_def
  cache_lookup_def cache_store_def cache_get_def cache_set_def network_def plain_def fresh_def createInstance_def
  constructor_def defaultConfig_def

lemma pre_send_config:
  "snd (pre_send e s c) =
     c\<lparr>cancelToken := (if requestCancellation s then Some (nextSource s) else cancelToken c),
       metadata := (if performanceMonitoring s then Some (now s) else metadata c)\<rparr>"
  by (simp add: pipeline_defs Let_def split: option.splits)

lemma pre_send_frame:
  "sent (fst (pre_send e s c)) = sent s"
  "refreshes (fst (pre_send e s c)) = refreshes s"
  "token (fst (pre_send e s c)) = token s"
  "tokenExpiration (fst (pre_send e s c)) = tokenExpiration s"
  "cache (fst (pre_send e s c)) = cache s"
  "stdTTL (fst (pre_send e s c)) = stdTTL s"
  "now (fst (pre_send e s c)) = now s"
  "defaultHeaders (fst (pre_send e s c)) = defaultHeaders s"
  "tokenRefreshEnabled (fst (pre_send e s c)) = tokenRefreshEnabled s"
  "requestCancellation (fst (pre_send e s c)) = requestCancellation s"
  "performanceMonitoring (fst (pre_send e s c)) = performanceMonitoring s"
  by (simp_all add: pipeline_defs Let_def split: option.splits)

lemma pre_send_registry:
  "requestCancellation s \<Longrightarrow>
   pendingRequests (fst (pre_send e s c)) (getRequestId e c) = Some (nextSource s)"
  by (simp add: pipeline_defs getRequestId_def Let_def split: option.splits)

lemma pre_send_trace:
  "trace (fst (pre_send e s c)) =
     trace s @
     (if requestCancellation s
      then (case pendingRequests s (getRequestId e c) of
              Some src \<Rightarrow> if cancelPrevious c \<noteq> Some False
                          then [Cancel src, Untrack (getRequestId e c)] else []
            | None \<Rightarrow> []) @ [Track (getRequestId e c) (nextSource s)]
      else [])"
  by (simp add: pipeline_defs getRequestId_def Let_def split: option.splits)

lemma request_frame:
  "sent (fst (customAxios_request e s c)) = Suc (sent s)"
  "refreshes (fst (customAxios_request e s c)) = refreshes s"
  "token (fst (customAxios_request e s c)) = token s"
  "tokenExpiration (fst (customAxios_request e s c)) = tokenExpiration s"
  "cache (fst (customAxios_request e s c)) = cache s"
  "stdTTL (fst (customAxios_request e s c)) = stdTTL s"
  "defaultHeaders (fst (customAxios_request e s c)) = defaultHeaders s"
  "tokenRefreshEnabled (fst (customAxios_request e s c)) = tokenRefreshEnabled s"
  "requestCancellation (fst (customAxios_request e s c)) = requestCancellation s"
  "performanceMonitoring (fst (customAxios_request e s c)) = performanceMonitoring s"
  by (simp_all add: customAxios_request_def Let_def case_prod_beta pre_send_frame
        post_receive_def monitoring_response_interceptor_def log_def split: wire_reply.splits)

lemma request_registry:
  assumes "requestCancellation s"
  shows "pendingRequests (fst (customAxios_request e s c)) (getRequestId e c) = Some (nextSource s)"
proof -
  let ?c = "c\<lparr>headers := mergeHeaders (headers c) (defaultHeaders s)\<rparr>"
  have same: "getRequestId e ?c = getRequestId e c"
    by (simp add: getRequestId_def)
  have "pendingRequests (fst (customAxios_request e s c)) = pendingRequests (fst (pre_send e s ?c))"
    by (simp add: customAxios_request_def Let_def case_prod_beta
          post_receive_def monitoring_response_interceptor_def log_def split: wire_reply.splits)
  then show ?thesis
    using pre_send_registry [OF assms, of e ?c] by (simp add: same)
qed

lemma request_error_identity:
  "snd (customAxios_request e s c) = Inl err \<Longrightarrow> getRequestId e (errconfig err) = getRequestId e c"
  by (auto simp: customAxios_request_def Let_def case_prod_beta pre_send_config getRequestId_def
        split: wire_reply.splits)

lemma refreshToken_frame:
  "sent (fst (refreshToken e s)) = sent s"
  "refreshes (fst (refreshToken e s)) = Suc (refreshes s)"
  "cache (fst (refreshToken e s)) = cache s"
  "stdTTL (fst (refreshToken e s)) = stdTTL s"
  "pendingRequests (fst (refreshToken e s)) = pendingRequests s"
  "nextSource (fst (refreshToken e s)) = nextSource s"
  "tokenRefreshEnabled (fst (refreshToken e s)) = tokenRefreshEnabled s"
  "requestCancellation (fst (refreshToken e s)) = requestCancellation s"
  "performanceMonitoring (fst (refreshToken e s)) = performanceMonitoring s"
  by (simp_all add: refreshToken_def refreshToken_begin_def refreshToken_end_def log_def
        Let_def case_prod_beta split: refresh_reply.splits)

lemma handleError_sent: "sent (fst (handleError e s err)) \<le> Suc (sent s)"
  by (simp add: handleError_def case_prod_beta log_def refreshToken_frame request_frame
        split: option.splits sum.splits)

lemma handleError_refreshes: "refreshes (fst (handleError e s err)) \<le> Suc (refreshes s)"
  by (simp add: handleError_def case_prod_beta log_def refreshToken_frame request_frame
        split: option.splits sum.splits)

lemma after_request_sent:
  "sent (fst (handleError e (fst (customAxios_request e s c)) err)) \<le> Suc (Suc (sent s))"
  using handleError_sent [of e "fst (customAxios_request e s c)" err]
  by (simp add: request_frame)

lemma after_request_refreshes:
  "refreshes (fst (handleError e (fst (customAxios_request e s c)) err)) \<le> Suc (refreshes s)"
  using handleError_refreshes [of e "fst (customAxios_request e s c)" err]
  by (simp add: request_frame)

lemma cache_lookup_frame:
  "sent (fst (cache_lookup s k)) = sent s"
  "refreshes (fst (cache_lookup s k)) = refreshes s"
  "pendingRequests (fst (cache_lookup s k)) = pendingRequests s"
  "nextSource (fst (cache_lookup s k)) = nextSource s"
  "cache (fst (cache_lookup s k)) = cache s"
  "stdTTL (fst (cache_lookup s k)) = stdTTL s"
  "now (fst (cache_lookup s k)) = now s"
  "requestCancellation (fst (cache_lookup s k)) = requestCancellation s"
  by (simp_all add: cache_lookup_def split: option.splits)

lemma cache_store_frame:
  "sent (cache_store s k v) = sent s"
  "refreshes (cache_store s k v) = refreshes s"
  "pendingRequests (cache_store s k v) = pendingRequests s"
  "now (cache_store s k v) = now s"
  by (simp_all add: cache_store_def split: option.splits)

lemma get_dispatches: "sent (fst (get e s u p c)) \<le> Suc (Suc (sent s))"
proof -
  have "sent (fst (handleError e (fst (customAxios_request e (fst (cache_lookup s k)) c')) err))
          \<le> Suc (Suc (sent s))" for k c' err
    using after_request_sent [of e "fst (cache_lookup s k)" c' err]
    by (simp add: cache_lookup_frame)
  then show ?thesis
    by (simp add: get_def Let_def case_prod_beta request_frame cache_lookup_frame
          cache_store_frame split: sum.splits)
qed

lemma get_refreshes: "refreshes (fst (get e s u p c)) \<le> Suc (refreshes s)"
proof -
  have "refreshes (fst (handleError e (fst (customAxios_request e (fst (cache_lookup s k)) c')) err))
          \<le> Suc (refreshes s)" for k c' err
    using after_request_refreshes [of e "fst (cache_lookup s k)" c' err]
    by (simp add: cache_lookup_frame)
  then show ?thesis
    by (simp add: get_def Let_def case_prod_beta request_frame cache_lookup_frame
          cache_store_frame split: sum.splits)
qed

lemma post_dispatches: "sent (fst (post e s u d c)) \<le> Suc (Suc (sent s))"
  by (simp add: post_def case_prod_beta request_frame after_request_sent split: sum.splits)

lemma post_refreshes: "refreshes (fst (post e s u d c)) \<le> Suc (refreshes s)"
  by (simp add: post_def case_prod_beta request_frame after_request_refreshes split: sum.splits)

lemma put_dispatches: "sent (fst (put e s u d c)) \<le> Suc (Suc (sent s))"
  by (simp add: put_def case_prod_beta request_frame after_request_sent split: sum.splits)

lemma put_refreshes: "refreshes (fst (put e s u d c)) \<le> Suc (refreshes s)"
  by (simp add: put_def case_prod_beta request_frame after_request_refreshes split: sum.splits)

lemma delete_dispatches: "sent (fst (delete e s u c)) \<le> Suc (Suc (sent s))"
  by (simp add: delete_def case_prod_beta request_frame after_request_sent split: sum.splits)

lemma delete_refreshes: "refreshes (fst (delete e s u c)) \<le> Suc (refreshes s)"
  by (simp add: delete_def case_prod_beta request_frame after_request_refreshes split: sum.splits)

subsection \<open>C1: concurrent callers of getToken\<close>

lemma run_append: "run e (es @ es') c = run e es' (run e es c)"
  by (induction e es c rule: run.induct) (simp_all add: Let_def split: prod.splits)

lemma getToken_begin_stale:
  "\<not> truthy (token s) \<or> isTokenExpired s \<Longrightarrow>
   getToken_begin s =
     (s\<lparr>refreshes := Suc (refreshes s), trace := trace s @ [RefreshPost (refreshes s)]\<rparr>,
      Pending (refreshes s))"
  by (simp add: getToken_begin_def refreshToken_begin_def)

text \<open>
  The two descriptions of \<^verbatim>\<open>getToken\<close> agree: one caller alone, whose refresh exchange
  completes after the time it takes, ends as the method run in one piece does.
\<close>

lemma getToken_alone:
  assumes "\<not> truthy (token s) \<or> isTokenExpired s"
  shows "run e [CallGetToken, Advance (fst (refresh_post e (refreshes s))), Settle (refreshes s)] (s, []) =
           (fst (getToken e s),
            [case snd (getToken e s) of Inl err \<Rightarrow> Rejected err | Inr v \<Rightarrow> Resolved v])"
  using assms
  by (simp add: getToken_begin_def getToken_resume_def getToken_def refreshToken_def
        refreshToken_begin_def Let_def case_prod_beta split: sum.splits)

lemma getToken_valid:
  assumes "truthy (token s)" "\<not> isTokenExpired s"
  shows "run e [CallGetToken] (s, []) = (s, [Resolved (token s)])"
    and "getToken e s = (s, Inr (token s))"
  using assms by (simp_all add: getToken_begin_def getToken_def)

text \<open>
  C1 as stated fails: two tasks call \<^verbatim>\<open>getToken\<close> on a new instance, which has no token,
  before any refresh completes. Two refresh exchanges are issued, and the two callers
  wait for different exchanges.
\<close>

theorem C1_counterexample:
  "refreshes (fst (run (network [] []) [CallGetToken, CallGetToken] (fresh, []))) = 2 \<and>
   snd (run (network [] []) [CallGetToken, CallGetToken] (fresh, [])) = [Pending 0, Pending 1]"
  by (simp add: getToken_begin_def refreshToken_begin_def isTokenExpired_def fresh_def
        createInstance_def constructor_def)

text \<open>
  C1, amended: while no valid token exists and no refresh has completed, every call of
  \<^verbatim>\<open>getToken\<close> issues a refresh exchange of its own. After \<open>k\<close> such calls \<open>k\<close> more
  exchanges have been issued, and the \<open>i\<close>-th caller waits for the outcome of the
  \<open>i\<close>-th of them; nothing else in the instance changes.
\<close>

theorem C1_each_caller_refreshes:
  assumes "\<not> truthy (token s) \<or> isTokenExpired s"
  shows "run e (replicate k CallGetToken) (s, ts) =
           (s\<lparr>refreshes := refreshes s + k,
              trace := trace s @ map RefreshPost [refreshes s ..< refreshes s + k]\<rparr>,
            ts @ map Pending [refreshes s ..< refreshes s + k])"
proof (induction k)
  case 0
  show ?case by simp
next
  case (Suc k)
  let ?sk = "s\<lparr>refreshes := refreshes s + k,
                trace := trace s @ map RefreshPost [refreshes s ..< refreshes s + k]\<rparr>"
  have stale: "\<not> truthy (token ?sk) \<or> isTokenExpired ?sk"
    using assms by (simp add: isTokenExpired_def split: option.splits)
  have "replicate (Suc k) CallGetToken = replicate k CallGetToken @ [CallGetToken]"
    by (simp add: replicate_append_same)
  then have "run e (replicate (Suc k) CallGetToken) (s, ts) =
             run e [CallGetToken] (run e (replicate k CallGetToken) (s, ts))"
    by (simp only: run_append)
  also have "\<dots> = run e [CallGetToken] (?sk, ts @ map Pending [refreshes s ..< refreshes s + k])"
    using Suc.IH by simp
  finally show ?case
    by (simp add: getToken_begin_stale [OF stale])
qed

theorem C1_each_caller_refreshes_witness:
  "token fresh = JUndefined \<and> tokenExpiration fresh = None \<and>
   refreshes (fst (run (network [] []) (replicate 3 CallGetToken) (fresh, []))) = 3 \<and>
   snd (run (network [] []) (replicate 3 CallGetToken) (fresh, [])) = [Pending 0, Pending 1, Pending 2]"
proof -
  have stale: "\<not> truthy (token fresh) \<or> isTokenExpired fresh"
    by (simp add: fresh_def createInstance_def constructor_def)
  have zero: "refreshes fresh = 0"
    by (simp add: fresh_def createInstance_def constructor_def)
  have up: "[0 ..< 3] = [0, 1, 2::nat]"
    by (simp add: upt_rec)
  have none: "token fresh = JUndefined" "tokenExpiration fresh = None"
    by (simp_all add: fresh_def createInstance_def constructor_def)
  show ?thesis
    using none C1_each_caller_refreshes [OF stale, of "network [] []" 3 "[]"]
    by (simp add: zero up)
qed

subsection \<open>C2: the pre-send stage\<close>

text \<open>
  C2 as stated fails: on an instance with token refresh enabled, the request that
  reaches the adapter carries the default header of the instance and no
  \<^verbatim>\<open>Authorization\<close> header; no token has been obtained and no refresh exchange issued.
\<close>

theorem C2_counterexample:
  "tokenRefreshEnabled fresh \<and>
   map_of (headers (snd (pre_send (network [] []) fresh (plain\<lparr>url := ''/data''\<rparr>))))
     ''Authorization'' = None \<and>
   (case snd (customAxios_request (network [Fulfilled 200 JNull] []) fresh (plain\<lparr>url := ''/data''\<rparr>)) of
      Inr r \<Rightarrow> headers (config r) = [(''X-Custom-Header'', ''foobar'')]
    | Inl err \<Rightarrow> False) \<and>
   token (fst (customAxios_request (network [Fulfilled 200 JNull] []) fresh (plain\<lparr>url := ''/data''\<rparr>)))
     = JUndefined \<and>
   refreshes (fst (customAxios_request (network [Fulfilled 200 JNull] []) fresh (plain\<lparr>url := ''/data''\<rparr>)))
     = 0"
  by (simp add: scenario_defs pipeline_defs Let_def)

text \<open>
  C2, amended: the pre-send stage stamps the request with the issue time when
  performance monitoring is enabled and attaches a cancellation handle when request
  cancellation is enabled. It changes nothing else of the request: the headers stay as
  they are, whether token refresh is enabled or not, and the token manager is neither
  read nor changed.
\<close>

theorem C2_pre_send_leaves_headers:
  "snd (pre_send e s c) =
     c\<lparr>cancelToken := (if requestCancellation s then Some (nextSource s) else cancelToken c),
       metadata := (if performanceMonitoring s then Some (now s) else metadata c)\<rparr> \<and>
   headers (snd (pre_send e s c)) = headers c \<and>
   token (fst (pre_send e s c)) = token s \<and>
   tokenExpiration (fst (pre_send e s c)) = tokenExpiration s \<and>
   refreshes (fst (pre_send e s c)) = refreshes s"
  by (simp add: pre_send_config pre_send_frame)

theorem C2_pre_send_leaves_headers_witness:
  "tokenRefreshEnabled fresh \<and>
   snd (pre_send (network [] []) fresh (plain\<lparr>url := ''/data''\<rparr>)) =
     plain\<lparr>url := ''/data'', cancelToken := Some 0, metadata := Some 0\<rparr> \<and>
   headers (snd (pre_send (network [] []) fresh (plain\<lparr>url := ''/data''\<rparr>))) = [] \<and>
   token (fst (pre_send (network [] []) fresh (plain\<lparr>url := ''/data''\<rparr>))) = JUndefined"
  using C2_pre_send_leaves_headers [of "network [] []" fresh "plain\<lparr>url := ''/data''\<rparr>"]
  by (simp add: fresh_def createInstance_def constructor_def defaultConfig_def plain_def)

subsection \<open>C3: what a successful call returns\<close>

text \<open>
  A call that succeeds at its first dispatch returns the data of the response.
\<close>

lemma direct_success_returns_payload:
  "snd (customAxios_request e s (c\<lparr>method := POST, url := u, body := d\<rparr>)) = Inr r \<Longrightarrow>
   snd (post e s u d c) = Inr (Payload (data r))"
  by (simp add: post_def case_prod_beta handleSuccess_def)

text \<open>
  C3 fails on the code: \<^verbatim>\<open>get('/secure')\<close> is answered 401, the refresh succeeds with
  token \<^verbatim>\<open>T2\<close>, and the retried request is answered 200 with the data \<^verbatim>\<open>secret\<close>. The call
  returns the whole response object of the retry, not its data.
\<close>

theorem C3_retry_returns_raw_response:
  "snd (get (network [RejectedWithResponse 401 JNull, Fulfilled 200 (JStr ''secret'')]
                     [RefreshOk ''T2'' 3600])
            fresh ''/secure'' JUndefined plain) =
   Inr (RawResponse
          \<lparr>status = 200, data = JStr ''secret'',
           config = \<lparr>method = GET, url = ''/secure'', params = JObj [], body = JUndefined,
                     headers = [(''X-Custom-Header'', ''foobar'')], cancelPrevious = None,
                     cancelToken = Some 1, metadata = Some 12\<rparr>\<rparr>)"
  by (simp add: scenario_defs pipeline_defs Let_def)

subsection \<open>C4: one retry at most\<close>

text \<open>
  C4: whatever the network answers, one call of \<^verbatim>\<open>get\<close>, \<^verbatim>\<open>post\<close>, \<^verbatim>\<open>put\<close> or \<^verbatim>\<open>delete\<close>
  dispatches at most two requests (the original and one retry) and issues at most one
  refresh exchange: a failed retry is neither retried nor recovered again.
\<close>

theorem C4_retry_at_most_once:
  "sent (fst (get e s u p c)) \<le> sent s + 2 \<and>
   refreshes (fst (get e s u p c)) \<le> refreshes s + 1 \<and>
   sent (fst (post e s u d c)) \<le> sent s + 2 \<and>
   refreshes (fst (post e s u d c)) \<le> refreshes s + 1 \<and>
   sent (fst (put e s u d c)) \<le> sent s + 2 \<and>
   refreshes (fst (put e s u d c)) \<le> refreshes s + 1 \<and>
   sent (fst (delete e s u c)) \<le> sent s + 2 \<and>
   refreshes (fst (delete e s u c)) \<le> refreshes s + 1"
  using get_dispatches [of e s u p c] get_refreshes [of e s u p c]
    post_dispatches [of e s u d c] post_refreshes [of e s u d c]
    put_dispatches [of e s u d c] put_refreshes [of e s u d c]
    delete_dispatches [of e s u c] delete_refreshes [of e s u c]
  by simp

theorem C4_retry_at_most_once_witness:
  "(case snd (get (network [RejectedWithResponse 401 JNull, RejectedWithResponse 401 JNull]
                           [RefreshOk ''T2'' 3600, RefreshOk ''T3'' 3600])
                fresh ''/secure'' JUndefined plain) of
      Inl x \<Rightarrow> map_option status (response x) = Some 401
    | Inr v \<Rightarrow> False) \<and>
   sent (fst (get (network [RejectedWithResponse 401 JNull, RejectedWithResponse 401 JNull]
                           [RefreshOk ''T2'' 3600, RefreshOk ''T3'' 3600])
                fresh ''/secure'' JUndefined plain)) = 2 \<and>
   refreshes (fst (get (network [RejectedWithResponse 401 JNull, RejectedWithResponse 401 JNull]
                           [RefreshOk ''T2'' 3600, RefreshOk ''T3'' 3600])
                fresh ''/secure'' JUndefined plain)) = 1"
  using C4_retry_at_most_once [of "network [RejectedWithResponse 401 JNull, RejectedWithResponse 401 JNull]
                           [RefreshOk ''T2'' 3600, RefreshOk ''T3'' 3600]" fresh "''/secure''" JUndefined plain]
  by (simp add: scenario_defs pipeline_defs Let_def)

subsection \<open>C5: two reads within the time to live\<close>

lemma handleError_never_payload: "snd (handleError e s err) \<noteq> Inr (Payload v)"
  by (simp add: handleError_def case_prod_beta split: option.splits sum.splits)

lemma cache_get_set:
  "t < t0 + life \<Longrightarrow> cache_get (cache_set m t0 life k v) t k = v"
  by (simp add: cache_get_def cache_set_def)

text \<open>
  C5 as stated fails: the first \<^verbatim>\<open>get('/data', {key: 'value'})\<close> succeeds with the payload
  \<open>0\<close>, the second is issued at once with caching enabled, and the transport is
  invoked a second time.
\<close>

theorem C5_counterexample:
  "cache fresh \<noteq> None \<and>
   snd (get (network [Fulfilled 200 (JNum 0), Fulfilled 200 (JNum 0)] []) fresh
          ''/data'' (JObj [(''key'', JStr ''value'')]) plain) = Inr (Payload (JNum 0)) \<and>
   sent (fst (get (network [Fulfilled 200 (JNum 0), Fulfilled 200 (JNum 0)] [])
                (fst (get (network [Fulfilled 200 (JNum 0), Fulfilled 200 (JNum 0)] []) fresh
                        ''/data'' (JObj [(''key'', JStr ''value'')]) plain))
                ''/data'' (JObj [(''key'', JStr ''value'')]) plain)) = 2"
  by (simp add: scenario_defs pipeline_defs Let_def)

text \<open>
  C5, amended: with caching enabled, let a first \<^verbatim>\<open>get\<close> be answered by the transport
  at its first dispatch with a truthy payload, and let a second \<^verbatim>\<open>get\<close> with the same url
  and parameters be issued at a time \<open>t\<close> within the time to live after the first
  settled. Then the second call does not invoke the transport and returns the payload
  of the first.
\<close>

theorem C5_truthy_payload_is_cached:
  assumes enabled: "cache s = Some m"
    and first: "snd (get e s u p c) = Inr (Payload v)"
    and dispatched: "sent (fst (get e s u p c)) = Suc (sent s)"
    and truthy: "truthy v"
    and within: "now (fst (get e s u p c)) \<le> t" "t < now (fst (get e s u p c)) + stdTTL s * 1000"
  shows "snd (get e ((fst (get e s u p c))\<lparr>now := t\<rparr>) u p c') = Inr (Payload v) \<and>
         sent (fst (get e ((fst (get e s u p c))\<lparr>now := t\<rparr>) u p c')) = sent (fst (get e s u p c))"
proof -
  define q where "q = (if p = JUndefined then JObj [] else p)"
  define k where "k = u @ ''_'' @ JSON_stringify e q"
  define L where "L = cache_lookup s k"
  define R where "R = customAxios_request e (fst L) (c\<lparr>method := GET, url := u, params := q\<rparr>)"
  have unfold_any: "get e s' u p c'' =
      (if truthy (snd (cache_lookup s' k))
       then (fst (cache_lookup s' k), Inr (Payload (snd (cache_lookup s' k))))
       else (case snd (customAxios_request e (fst (cache_lookup s' k))
                        (c''\<lparr>method := GET, url := u, params := q\<rparr>)) of
               Inr r \<Rightarrow>
                 (cache_store
                    (fst (customAxios_request e (fst (cache_lookup s' k))
                            (c''\<lparr>method := GET, url := u, params := q\<rparr>))) k (data r),
                  Inr (Payload (data r)))
             | Inl err \<Rightarrow>
                 handleError e
                   (fst (customAxios_request e (fst (cache_lookup s' k))
                           (c''\<lparr>method := GET, url := u, params := q\<rparr>))) err))" for s' c''
    by (simp add: get_def Let_def case_prod_beta q_def k_def handleSuccess_def split: sum.splits)
  have unfold: "get e s u p c =
      (if truthy (snd L) then (fst L, Inr (Payload (snd L)))
       else (case snd R of
               Inr r \<Rightarrow> (cache_store (fst R) k (data r), Inr (Payload (data r)))
             | Inl err \<Rightarrow> handleError e (fst R) err))"
    by (simp only: unfold_any L_def R_def)
  have miss: "\<not> truthy (snd L)"
  proof
    assume "truthy (snd L)"
    then have "sent (fst (get e s u p c)) = sent s"
      by (simp add: unfold L_def cache_lookup_frame)
    with dispatched show False by simp
  qed
  obtain r where r: "snd R = Inr r" "data r = v"
  proof (cases "snd R")
    case (Inl err)
    then have "snd (get e s u p c) = snd (handleError e (fst R) err)"
      by (simp add: unfold miss)
    with first handleError_never_payload show ?thesis by metis
  next
    case (Inr r)
    with first miss have "data r = v" by (simp add: unfold)
    with Inr that show ?thesis by blast
  qed
  have cR: "cache (fst R) = Some m" "stdTTL (fst R) = stdTTL s"
    by (simp_all add: R_def L_def request_frame cache_lookup_frame enabled)
  let ?s1 = "fst (get e s u p c)"
  have s1: "?s1 = cache_store (fst R) k v"
    by (simp add: unfold miss r)
  have now1: "now ?s1 = now (fst R)"
    by (simp add: s1 cache_store_frame)
  have look: "cache_lookup (?s1\<lparr>now := t\<rparr>) k =
                (?s1\<lparr>now := t, trace := trace ?s1 @ [CacheLookup k]\<rparr>, v)"
    using within by (simp add: now1 cache_lookup_def s1 cache_store_def cR cache_get_set)
  show ?thesis
    by (simp add: unfold_any [of "?s1\<lparr>now := t\<rparr>" c'] look truthy)
qed

theorem C5_truthy_payload_is_cached_witness:
  "snd (get (network [Fulfilled 200 (JStr ''live'')] []) fresh
          ''/data'' (JObj [(''key'', JStr ''value'')]) plain) = Inr (Payload (JStr ''live'')) \<and>
   snd (get (network [Fulfilled 200 (JStr ''live'')] [])
          ((fst (get (network [Fulfilled 200 (JStr ''live'')] []) fresh
                   ''/data'' (JObj [(''key'', JStr ''value'')]) plain))\<lparr>now := 99999\<rparr>)
          ''/data'' (JObj [(''key'', JStr ''value'')]) plain) = Inr (Payload (JStr ''live'')) \<and>
   sent (fst (get (network [Fulfilled 200 (JStr ''live'')] [])
          ((fst (get (network [Fulfilled 200 (JStr ''live'')] []) fresh
                   ''/data'' (JObj [(''key'', JStr ''value'')]) plain))\<lparr>now := 99999\<rparr>)
          ''/data'' (JObj [(''key'', JStr ''value'')]) plain)) = 1"
proof -
  let ?e = "network [Fulfilled 200 (JStr ''live'')] []"
  let ?p = "JObj [(''key'', JStr ''value'')]"
  have a: "cache fresh = Some Map.empty"
    by (simp add: fresh_def createInstance_def constructor_def defaultConfig_def)
  have b: "snd (get ?e fresh ''/data'' ?p plain) = Inr (Payload (JStr ''live''))"
    by (simp add: scenario_defs pipeline_defs Let_def)
  have c: "sent (fst (get ?e fresh ''/data'' ?p plain)) = Suc (sent fresh)"
    by (simp add: scenario_defs pipeline_defs Let_def)
  have d: "now (fst (get ?e fresh ''/data'' ?p plain)) = 5" "stdTTL fresh = 100" "sent fresh = 0"
    by (simp_all add: scenario_defs pipeline_defs Let_def)
  show ?thesis
    using C5_truthy_payload_is_cached [OF a b c, of 99999 plain] b c d
    by simp
qed

subsection \<open>C6: the registry after a request has settled\<close>

lemma handleError_keeps_record:
  assumes on: "requestCancellation s"
    and there: "pendingRequests s (getRequestId e (errconfig err)) \<noteq> None"
  shows "pendingRequests (fst (handleError e s err)) (getRequestId e (errconfig err)) \<noteq> None"
proof (cases "\<exists>r. response err = Some r \<and> status r = 401 \<and> tokenRefreshEnabled s")
  case False
  then have "pendingRequests (fst (handleError e s err)) = pendingRequests s"
    by (auto simp: handleError_def log_def split: option.splits)
  with there show ?thesis by simp
next
  case True
  let ?T = "refreshToken e (log s Unauthorized)"
  have frame: "pendingRequests (fst ?T) = pendingRequests s" "requestCancellation (fst ?T)"
    using on by (simp_all add: refreshToken_frame log_def)
  show ?thesis
  proof (cases "snd ?T")
    case (Inl refreshError)
    with True have "pendingRequests (fst (handleError e s err)) = pendingRequests (fst ?T)"
      by (auto simp: handleError_def case_prod_beta log_def)
    with there frame show ?thesis by simp
  next
    case (Inr u)
    with True have "pendingRequests (fst (handleError e s err)) =
                    pendingRequests (fst (customAxios_request e (fst ?T) (errconfig err)))"
      by (auto simp: handleError_def case_prod_beta log_def split: sum.splits)
    then show ?thesis
      using request_registry [OF frame(2), of e "errconfig err"] by simp
  qed
qed

lemma settled_request_keeps_record:
  assumes on: "requestCancellation s"
  shows "pendingRequests
           (case customAxios_request e s c of
              (s1, Inr r) \<Rightarrow> s1
            | (s1, Inl err) \<Rightarrow> fst (handleError e s1 err))
           (getRequestId e c) \<noteq> None"
proof (cases "snd (customAxios_request e s c)")
  case (Inr r)
  then show ?thesis
    using request_registry [OF on, of e c] by (simp add: case_prod_beta)
next
  case (Inl err)
  let ?s1 = "fst (customAxios_request e s c)"
  have same: "getRequestId e (errconfig err) = getRequestId e c"
    using Inl by (rule request_error_identity)
  have "requestCancellation ?s1" "pendingRequests ?s1 (getRequestId e (errconfig err)) \<noteq> None"
    using on request_registry [OF on, of e c] by (simp_all add: request_frame same)
  then have "pendingRequests (fst (handleError e ?s1 err)) (getRequestId e (errconfig err)) \<noteq> None"
    by (rule handleError_keeps_record)
  then show ?thesis
    using Inl by (simp add: case_prod_beta same)
qed














subsection \<open>C7: a failed refresh\<close>

text \<open>
  C7: when the refresh exchange fails with an error, \<^verbatim>\<open>refreshToken\<close> rejects with that
  error and leaves the token and its expiry as they were. In the 401 branch of
  \<^verbatim>\<open>handleError\<close> the caller receives the error of the refresh, not the 401 error, the
  token state is unchanged, and nothing is dispatched.
\<close>

theorem C7_refresh_failure_keeps_token_state:
  assumes failed: "snd (refresh_post e (refreshes s)) = RefreshFailed refreshError"
  shows "snd (refreshToken e s) = Inl refreshError \<and>
         token (fst (refreshToken e s)) = token s \<and>
         tokenExpiration (fst (refreshToken e s)) = tokenExpiration s \<and>
         (response err = Some r \<and> status r = 401 \<and> tokenRefreshEnabled s \<longrightarrow>
            snd (handleError e s err) = Inl refreshError \<and>
            token (fst (handleError e s err)) = token s \<and>
            tokenExpiration (fst (handleError e s err)) = tokenExpiration s \<and>
            sent (fst (handleError e s err)) = sent s)"
proof -
  have one: "snd (refreshToken e s') = Inl refreshError \<and>
             token (fst (refreshToken e s')) = token s' \<and>
             tokenExpiration (fst (refreshToken e s')) = tokenExpiration s'"
    if "refreshes s' = refreshes s" for s'
    using failed that
    by (simp add: refreshToken_def refreshToken_begin_def refreshToken_end_def log_def
          Let_def case_prod_beta)
  have two: "snd (handleError e s err) = Inl refreshError \<and>
             token (fst (handleError e s err)) = token s \<and>
             tokenExpiration (fst (handleError e s err)) = tokenExpiration s \<and>
             sent (fst (handleError e s err)) = sent s"
    if "response err = Some r" "status r = 401" "tokenRefreshEnabled s"
    using that one [of "log s Unauthorized"]
    by (simp add: handleError_def case_prod_beta log_def refreshToken_frame)
  from one [of s] two show ?thesis by simp
qed

theorem C7_refresh_failure_keeps_token_state_witness:
  "token (fst (getToken (network [] [RefreshOk ''T1'' 3600]) fresh)) = JStr ''T1'' \<and>
   tokenExpiration (fst (getToken (network [] [RefreshOk ''T1'' 3600]) fresh)) = Some 3600007 \<and>
   snd (refreshToken (network [] [RefreshOk ''T1'' 3600])
          (fst (getToken (network [] [RefreshOk ''T1'' 3600]) fresh))) = Inl offline \<and>
   token (fst (refreshToken (network [] [RefreshOk ''T1'' 3600])
          (fst (getToken (network [] [RefreshOk ''T1'' 3600]) fresh)))) = JStr ''T1'' \<and>
   tokenExpiration (fst (refreshToken (network [] [RefreshOk ''T1'' 3600])
          (fst (getToken (network [] [RefreshOk ''T1'' 3600]) fresh)))) = Some 3600007 \<and>
   snd (handleError (network [] [RefreshOk ''T1'' 3600])
          (fst (getToken (network [] [RefreshOk ''T1'' 3600]) fresh))
          \<lparr>response = Some \<lparr>status = 401, data = JNull, config = plain\<rparr>, request = True,
           errconfig = plain, message = []\<rparr>) = Inl offline \<and>
   token (fst (handleError (network [] [RefreshOk ''T1'' 3600])
          (fst (getToken (network [] [RefreshOk ''T1'' 3600]) fresh))
          \<lparr>response = Some \<lparr>status = 401, data = JNull, config = plain\<rparr>, request = True,
           errconfig = plain, message = []\<rparr>)) = JStr ''T1''"
proof -
  let ?e = "network [] [RefreshOk ''T1'' 3600]"
  let ?s = "fst (getToken ?e fresh)"
  have state: "token ?s = JStr ''T1''" "tokenExpiration ?s = Some 3600007" "refreshes ?s = 1"
    "tokenRefreshEnabled ?s"
    by (simp_all add: getToken_def isTokenExpired_def scenario_defs log_def Let_def)
  have failed1: "snd (refresh_post ?e 1) = RefreshFailed offline"
    by (simp add: network_def)
  have failed: "snd (refresh_post ?e (refreshes ?s)) = RefreshFailed offline"
    by (simp only: state failed1)
  show ?thesis
    using C7_refresh_failure_keeps_token_state [OF failed,
        of "\<lparr>response = Some \<lparr>status = 401, data = JNull, config = plain\<rparr>, request = True,
             errconfig = plain, message = []\<rparr>" "\<lparr>status = 401, data = JNull, config = plain\<rparr>"]
    by (simp add: state)
qed

subsection \<open>C8: a 404 response\<close>

lemma request_rejected:
  assumes "\<And>c1. snd (adapter e (sent s) c1) = RejectedWithResponse st d"
  shows "\<exists>err. snd (customAxios_request e s c) = Inl err \<and>
               response err = Some \<lparr>status = st, data = d, config = errconfig err\<rparr>"
  using assms
  by (simp add: customAxios_request_def Let_def case_prod_beta pre_send_frame)

lemma handleError_not_found:
  assumes "response err = Some r" "status r = 404"
  shows "handleError e s err = (log s (ResourceNotFound (url (config r))), Inl err)"
  using assms by (simp add: handleError_def)

lemma rejected_goes_to_handleError:
  assumes "snd (customAxios_request e s c) = Inl err"
  shows "(case customAxios_request e s c of
            (s1, Inr r) \<Rightarrow> (g s1 r, Inr (Payload (handleSuccess r)))
          | (s1, Inl err) \<Rightarrow> handleError e s1 err) =
         handleError e (fst (customAxios_request e s c)) err"
  using assms by (simp add: case_prod_beta)

lemma not_found_outcome:
  assumes nf: "\<And>c1. snd (adapter e (sent s) c1) = RejectedWithResponse 404 d"
  shows "\<exists>x. (case customAxios_request e s c of
                 (s1, Inr r) \<Rightarrow> (g s1 r, Inr (Payload (handleSuccess r)))
               | (s1, Inl err) \<Rightarrow> handleError e s1 err) =
              (log (fst (customAxios_request e s c)) (ResourceNotFound (url c)), Inl x) \<and>
             map_option status (response x) = Some 404"
proof -
  from request_rejected [of e s 404 d c] nf
  obtain x where x: "snd (customAxios_request e s c) = Inl x"
    "response x = Some \<lparr>status = 404, data = d, config = errconfig x\<rparr>"
    by blast
  have "url (errconfig x) = url c"
    using x(1)
    by (auto simp: customAxios_request_def Let_def case_prod_beta pre_send_config
          split: wire_reply.splits)
  then show ?thesis
    using x by (simp add: rejected_goes_to_handleError handleError_not_found [OF x(2)])
qed

lemma not_found_counts:
  assumes "out = (log (fst (customAxios_request e s c)) l, Inl x)"
    and "map_option status (response x) = Some 404"
  shows "(\<exists>x. snd out = Inl x \<and> map_option status (response x) = Some 404) \<and>
         sent (fst out) = Suc (sent s) \<and> refreshes (fst out) = refreshes s"
  using assms by (simp add: log_def request_frame)

text \<open>
  C8: \<^verbatim>\<open>handleError\<close> answers an error that carries a 404 response by logging and
  rejecting with that same error; it dispatches nothing and issues no refresh. So when
  the transport answers the dispatch of a call with 404, the call fails with the 404
  error after exactly one dispatch and no refresh exchange.
\<close>

theorem C8_not_found_without_recovery:
  "(response err = Some r \<and> status r = 404 \<longrightarrow>
      snd (handleError e s err) = Inl err \<and>
      sent (fst (handleError e s err)) = sent s \<and>
      refreshes (fst (handleError e s err)) = refreshes s \<and>
      trace (fst (handleError e s err)) = trace s @ [Console (ResourceNotFound (url (config r)))]) \<and>
   ((\<forall>c1. snd (adapter e (sent s) c1) = RejectedWithResponse 404 d) \<longrightarrow>
      ((\<exists>x. snd (post e s u b c) = Inl x \<and> map_option status (response x) = Some 404) \<and>
       sent (fst (post e s u b c)) = Suc (sent s) \<and>
       refreshes (fst (post e s u b c)) = refreshes s) \<and>
      ((\<exists>x. snd (put e s u b c) = Inl x \<and> map_option status (response x) = Some 404) \<and>
       sent (fst (put e s u b c)) = Suc (sent s) \<and>
       refreshes (fst (put e s u b c)) = refreshes s) \<and>
      ((\<exists>x. snd (delete e s u c) = Inl x \<and> map_option status (response x) = Some 404) \<and>
       sent (fst (delete e s u c)) = Suc (sent s) \<and>
       refreshes (fst (delete e s u c)) = refreshes s) \<and>
      (\<not> truthy (snd (cache_lookup s (u @ ''_'' @ JSON_stringify e (if p = JUndefined then JObj [] else p)))) \<longrightarrow>
       (\<exists>x. snd (get e s u p c) = Inl x \<and> map_option status (response x) = Some 404) \<and>
       sent (fst (get e s u p c)) = Suc (sent s) \<and>
       refreshes (fst (get e s u p c)) = refreshes s))"
proof (intro conjI impI)
  assume "response err = Some r \<and> status r = 404"
  then have h: "handleError e s err = (log s (ResourceNotFound (url (config r))), Inl err)"
    by (simp add: handleError_not_found)
  show "snd (handleError e s err) = Inl err"
    "sent (fst (handleError e s err)) = sent s"
    "refreshes (fst (handleError e s err)) = refreshes s"
    "trace (fst (handleError e s err)) = trace s @ [Console (ResourceNotFound (url (config r)))]"
    by (simp_all add: h log_def)
next
  assume "\<forall>c1. snd (adapter e (sent s) c1) = RejectedWithResponse 404 d"
  then have nf: "\<And>c1. snd (adapter e (sent s) c1) = RejectedWithResponse 404 d"
    by simp
  from not_found_outcome [OF nf, where c = "c\<lparr>method := POST, url := u, body := b\<rparr>" and g = "\<lambda>s1 r. s1"]
  obtain x where "post e s u b c =
      (log (fst (customAxios_request e s (c\<lparr>method := POST, url := u, body := b\<rparr>)))
         (ResourceNotFound u), Inl x)" "map_option status (response x) = Some 404"
    by (auto simp: post_def)
  note counts = not_found_counts [OF this]
  show "\<exists>x. snd (post e s u b c) = Inl x \<and> map_option status (response x) = Some 404"
    "sent (fst (post e s u b c)) = Suc (sent s)"
    "refreshes (fst (post e s u b c)) = refreshes s"
    using counts by auto
  from not_found_outcome [OF nf, where c = "c\<lparr>method := PUT, url := u, body := b\<rparr>" and g = "\<lambda>s1 r. s1"]
  obtain x where "put e s u b c =
      (log (fst (customAxios_request e s (c\<lparr>method := PUT, url := u, body := b\<rparr>)))
         (ResourceNotFound u), Inl x)" "map_option status (response x) = Some 404"
    by (auto simp: put_def)
  note counts = not_found_counts [OF this]
  show "\<exists>x. snd (put e s u b c) = Inl x \<and> map_option status (response x) = Some 404"
    "sent (fst (put e s u b c)) = Suc (sent s)"
    "refreshes (fst (put e s u b c)) = refreshes s"
    using counts by auto
  from not_found_outcome [OF nf, where c = "c\<lparr>method := DELETE, url := u\<rparr>" and g = "\<lambda>s1 r. s1"]
  obtain x where "delete e s u c =
      (log (fst (customAxios_request e s (c\<lparr>method := DELETE, url := u\<rparr>)))
         (ResourceNotFound u), Inl x)" "map_option status (response x) = Some 404"
    by (auto simp: delete_def)
  note counts = not_found_counts [OF this]
  show "\<exists>x. snd (delete e s u c) = Inl x \<and> map_option status (response x) = Some 404"
    "sent (fst (delete e s u c)) = Suc (sent s)"
    "refreshes (fst (delete e s u c)) = refreshes s"
    using counts by auto
  assume miss: "\<not> truthy (snd (cache_lookup s (u @ ''_'' @ JSON_stringify e (if p = JUndefined then JObj [] else p))))"
  define q where "q = (if p = JUndefined then JObj [] else p)"
  define k where "k = u @ ''_'' @ JSON_stringify e q"
  define L where "L = cache_lookup s k"
  have nfL: "\<And>c1. snd (adapter e (sent (fst L)) c1) = RejectedWithResponse 404 d"
    by (simp add: L_def cache_lookup_frame nf)
  have missL: "\<not> truthy (snd L)"
    using miss by (simp add: L_def k_def q_def)
  have unfold: "get e s u p c =
      (case customAxios_request e (fst L) (c\<lparr>method := GET, url := u, params := q\<rparr>) of
         (s1, Inr r) \<Rightarrow> (cache_store s1 k (data r), Inr (Payload (handleSuccess r)))
       | (s1, Inl err) \<Rightarrow> handleError e s1 err)"
    using missL by (simp add: get_def Let_def case_prod_beta q_def k_def L_def)
  from not_found_outcome [OF nfL, where c = "c\<lparr>method := GET, url := u, params := q\<rparr>" and g = "\<lambda>s1 r. cache_store s1 k (data r)"]
  obtain x where "get e s u p c =
      (log (fst (customAxios_request e (fst L) (c\<lparr>method := GET, url := u, params := q\<rparr>)))
         (ResourceNotFound u), Inl x)" "map_option status (response x) = Some 404"
    by (auto simp: unfold)
  note counts = not_found_counts [OF this]
  show "\<exists>x. snd (get e s u p c) = Inl x \<and> map_option status (response x) = Some 404"
    "sent (fst (get e s u p c)) = Suc (sent s)"
    "refreshes (fst (get e s u p c)) = refreshes s"
    using counts by (auto simp: L_def cache_lookup_frame)
qed

theorem C8_not_found_without_recovery_witness:
  "(\<exists>x. snd (get (network [RejectedWithResponse 404 JNull] []) fresh ''/missing'' JUndefined plain) = Inl x \<and>
        map_option status (response x) = Some 404) \<and>
   sent (fst (get (network [RejectedWithResponse 404 JNull] []) fresh ''/missing'' JUndefined plain)) = 1 \<and>
   refreshes (fst (get (network [RejectedWithResponse 404 JNull] []) fresh ''/missing'' JUndefined plain)) = 0 \<and>
   tokenRefreshEnabled fresh"
proof -
  let ?e = "network [RejectedWithResponse 404 JNull] []"
  have zero: "sent fresh = 0" "refreshes fresh = 0" "tokenRefreshEnabled fresh"
    by (simp_all add: fresh_def createInstance_def constructor_def defaultConfig_def)
  have nf: "\<forall>c1. snd (adapter ?e (sent fresh) c1) = RejectedWithResponse 404 JNull"
    by (simp add: zero network_def)
  have miss: "\<not> truthy (snd (cache_lookup fresh (''/missing'' @ ''_'' @ JSON_stringify ?e
                 (if JUndefined = JUndefined then JObj [] else JUndefined))))"
    by (simp add: cache_lookup_def cache_get_def fresh_def createInstance_def constructor_def
          defaultConfig_def)
  show ?thesis
    using C8_not_found_without_recovery [of _ _ ?e fresh JNull "''/missing''" _ plain JUndefined]
      nf miss zero
    by simp
qed

subsection \<open>C9: the order of cache, registry and dispatch\<close>

lemma request_trace:
  "prefix
     (trace s @
      (if requestCancellation s
       then (case pendingRequests s (getRequestId e c) of
               Some src \<Rightarrow> if cancelPrevious c \<noteq> Some False
                           then [Cancel src, Untrack (getRequestId e c)] else []
             | None \<Rightarrow> []) @ [Track (getRequestId e c) (nextSource s)]
       else []) @ [Dispatch (sent s)])
     (trace (fst (customAxios_request e s c)))"
proof -
  let ?c = "c\<lparr>headers := mergeHeaders (headers c) (defaultHeaders s)\<rparr>"
  have same: "getRequestId e ?c = getRequestId e c" "cancelPrevious ?c = cancelPrevious c"
    by (simp_all add: getRequestId_def)
  have "prefix (trace (fst (pre_send e s ?c)) @ [Dispatch (sent s)])
          (trace (fst (customAxios_request e s c)))"
    by (simp add: customAxios_request_def Let_def case_prod_beta pre_send_frame
          post_receive_def monitoring_response_interceptor_def log_def split: wire_reply.splits)
  then show ?thesis
    by (simp only: pre_send_trace same append_assoc)
qed

lemma request_trace_grows: "prefix (trace s) (trace (fst (customAxios_request e s c)))"
  using request_trace [where s = s and e = e and c = c] by (meson append_prefixD)

lemma refreshToken_trace_grows: "prefix (trace s) (trace (fst (refreshToken e s)))"
  by (simp add: refreshToken_def refreshToken_begin_def refreshToken_end_def log_def
        Let_def case_prod_beta split: refresh_reply.splits)

lemma handleError_trace_grows: "prefix (trace s) (trace (fst (handleError e s err)))"
proof -
  have a: "prefix (trace s) (trace (fst (refreshToken e (log s Unauthorized))))"
    using refreshToken_trace_grows [where s = "log s Unauthorized" and e = e]
    by (auto simp: log_def dest: append_prefixD)
  have b: "prefix (trace s)
             (trace (fst (customAxios_request e (fst (refreshToken e (log s Unauthorized))) c)))" for c
    using a request_trace_grows prefix_order.trans by blast
  show ?thesis
    using a b
    by (auto simp: handleError_def case_prod_beta log_def split: option.splits sum.splits)
qed

lemma cache_store_trace_grows: "prefix (trace s) (trace (cache_store s k v))"
  by (simp add: cache_store_def split: option.splits)


lemma handleError_sent_grows: "sent s \<le> sent (fst (handleError e s err))"
  by (simp add: handleError_def case_prod_beta log_def refreshToken_frame request_frame
        split: option.splits sum.splits)

lemma get_miss:
  assumes q: "q = (if p = JUndefined then JObj [] else p)"
    and k: "k = u @ ''_'' @ JSON_stringify e q"
    and miss: "\<not> truthy (snd (cache_lookup s k))"
  shows "prefix
           (trace (fst (cache_lookup s k)) @
            (if requestCancellation s
             then (case pendingRequests s (getRequestId e (c\<lparr>method := GET, url := u, params := q\<rparr>)) of
                     Some src \<Rightarrow>
                       if cancelPrevious c \<noteq> Some False
                       then [Cancel src, Untrack (getRequestId e (c\<lparr>method := GET, url := u, params := q\<rparr>))]
                       else []
                   | None \<Rightarrow> []) @
                  [Track (getRequestId e (c\<lparr>method := GET, url := u, params := q\<rparr>)) (nextSource s)]
             else []) @ [Dispatch (sent s)])
           (trace (fst (get e s u p c)))"
    and "Suc (sent s) \<le> sent (fst (get e s u p c))"
proof -
  let ?L = "fst (cache_lookup s k)"
  let ?c = "c\<lparr>method := GET, url := u, params := q\<rparr>"
  let ?R = "customAxios_request e ?L ?c"
  have unfold: "get e s u p c =
      (case snd ?R of
         Inr r \<Rightarrow> (cache_store (fst ?R) k (data r), Inr (Payload (data r)))
       | Inl err \<Rightarrow> handleError e (fst ?R) err)"
    using miss by (simp add: get_def Let_def case_prod_beta q k handleSuccess_def split: sum.splits)
  have grows: "prefix (trace (fst ?R)) (trace (fst (get e s u p c)))"
    by (simp add: unfold cache_store_trace_grows handleError_trace_grows split: sum.splits)
  have "prefix
          (trace ?L @
           (if requestCancellation ?L
            then (case pendingRequests ?L (getRequestId e ?c) of
                    Some src \<Rightarrow> if cancelPrevious ?c \<noteq> Some False
                                then [Cancel src, Untrack (getRequestId e ?c)] else []
                  | None \<Rightarrow> []) @ [Track (getRequestId e ?c) (nextSource ?L)]
            else []) @ [Dispatch (sent ?L)])
          (trace (fst ?R))"
    by (rule request_trace)
  then have "prefix
          (trace ?L @
           (if requestCancellation s
            then (case pendingRequests s (getRequestId e ?c) of
                    Some src \<Rightarrow> if cancelPrevious c \<noteq> Some False
                                then [Cancel src, Untrack (getRequestId e ?c)] else []
                  | None \<Rightarrow> []) @ [Track (getRequestId e ?c) (nextSource s)]
            else []) @ [Dispatch (sent s)])
          (trace (fst ?R))"
    by (simp add: cache_lookup_frame cong: if_cong option.case_cong)
  with grows show "prefix
           (trace (fst (cache_lookup s k)) @
            (if requestCancellation s
             then (case pendingRequests s (getRequestId e ?c) of
                     Some src \<Rightarrow>
                       if cancelPrevious c \<noteq> Some False
                       then [Cancel src, Untrack (getRequestId e ?c)]
                       else []
                   | None \<Rightarrow> []) @
                  [Track (getRequestId e ?c) (nextSource s)]
             else []) @ [Dispatch (sent s)])
           (trace (fst (get e s u p c)))"
    using prefix_order.trans by blast
  have "sent (fst ?R) = Suc (sent s)"
    by (simp add: request_frame cache_lookup_frame)
  moreover have "sent (fst ?R) \<le> sent (fst (get e s u p c))"
    by (simp add: unfold cache_store_frame handleError_sent_grows split: sum.splits)
  ultimately show "Suc (sent s) \<le> sent (fst (get e s u p c))"
    by simp
qed

text \<open>
  C9 as stated fails in its first part: in a \<^verbatim>\<open>get\<close> on a new instance the cache is
  consulted before the request is registered.
\<close>

theorem C9_counterexample:
  "trace (fst (get (network [Fulfilled 200 (JStr ''live'')] []) fresh ''/data'' JUndefined plain)) =
     [CacheLookup ''/data_{}'', Track ''GET/data{}'' 0, Dispatch 0,
      Console (RequestDuration (Some 5)), CacheStore ''/data_{}'']"
  by (simp add: scenario_defs pipeline_defs Let_def)

text \<open>
  C9, amended: for every read request with caching enabled the cache is consulted
  first. On a hit the call returns the cached value and nothing else happens: no
  registered request is cancelled, the request is not registered, nothing is
  dispatched. On a miss the registry step follows (a registered request of the same
  identity is cancelled and removed unless \<^verbatim>\<open>cancelPrevious\<close> is \<^verbatim>\<open>false\<close>, then the new
  request is registered, when request cancellation is enabled), and after it the
  request is dispatched; so the cancellation of a superseded duplicate happens before
  the dispatch of the request that supersedes it.
\<close>

theorem C9_cache_then_registry_then_dispatch:
  assumes "cache s = Some m"
    and "q = (if p = JUndefined then JObj [] else p)"
    and "k = u @ ''_'' @ JSON_stringify e q"
    and "rid = getRequestId e (c\<lparr>method := GET, url := u, params := q\<rparr>)"
  shows "(truthy (cache_get m (now s) k) \<longrightarrow>
            get e s u p c =
              (s\<lparr>trace := trace s @ [CacheLookup k]\<rparr>, Inr (Payload (cache_get m (now s) k)))) \<and>
         (\<not> truthy (cache_get m (now s) k) \<longrightarrow>
            prefix
              (trace s @ [CacheLookup k] @
               (if requestCancellation s
                then (case pendingRequests s rid of
                        Some src \<Rightarrow>
                          if cancelPrevious c \<noteq> Some False then [Cancel src, Untrack rid] else []
                      | None \<Rightarrow> []) @ [Track rid (nextSource s)]
                else []) @ [Dispatch (sent s)])
              (trace (fst (get e s u p c))))"
proof (intro conjI impI)
  have look: "cache_lookup s k = (s\<lparr>trace := trace s @ [CacheLookup k]\<rparr>, cache_get m (now s) k)"
    using assms(1) by (simp add: cache_lookup_def)
  {
    assume "truthy (cache_get m (now s) k)"
    then show "get e s u p c =
        (s\<lparr>trace := trace s @ [CacheLookup k]\<rparr>, Inr (Payload (cache_get m (now s) k)))"
      using look by (simp add: get_def Let_def assms(2,3))
  next
    assume "\<not> truthy (cache_get m (now s) k)"
    then have "\<not> truthy (snd (cache_lookup s k))"
      by (simp add: look)
    from get_miss(1) [OF assms(2,3) this, of c]
    show "prefix
            (trace s @ [CacheLookup k] @
             (if requestCancellation s
              then (case pendingRequests s rid of
                      Some src \<Rightarrow>
                        if cancelPrevious c \<noteq> Some False then [Cancel src, Untrack rid] else []
                    | None \<Rightarrow> []) @ [Track rid (nextSource s)]
              else []) @ [Dispatch (sent s)])
            (trace (fst (get e s u p c)))"
      by (simp add: look assms(4) cong: if_cong option.case_cong)
  }
qed

theorem C9_cache_then_registry_then_dispatch_witness:
  "get (network [Fulfilled 200 (JStr ''live'')] [])
     (fst (get (network [Fulfilled 200 (JStr ''live'')] []) fresh ''/data'' JUndefined plain))
     ''/data'' JUndefined plain =
     ((fst (get (network [Fulfilled 200 (JStr ''live'')] []) fresh ''/data'' JUndefined plain))
        \<lparr>trace := trace (fst (get (network [Fulfilled 200 (JStr ''live'')] []) fresh
                              ''/data'' JUndefined plain)) @ [CacheLookup ''/data_{}'']\<rparr>,
      Inr (Payload (JStr ''live''))) \<and>
   prefix
     (trace (fst (get (network [Fulfilled 200 (JStr ''live'')] []) fresh ''/data'' JUndefined plain)) @
      [CacheLookup ''/data_{}'', Cancel 0, Untrack ''GET/data{}'', Track ''GET/data{}'' 1, Dispatch 1])
     (trace (fst (get (network [Fulfilled 200 (JStr ''live'')] [])
        ((fst (get (network [Fulfilled 200 (JStr ''live'')] []) fresh ''/data'' JUndefined plain))
           \<lparr>now := 200000\<rparr>)
        ''/data'' JUndefined plain)))"
proof -
  let ?e = "network [Fulfilled 200 (JStr ''live'')] []"
  let ?s = "fst (get ?e fresh ''/data'' JUndefined plain)"
  let ?m = "[''/data_{}'' \<mapsto> \<lparr>cvalue = JStr ''live'', insertedAt = 5, ttl = 100000\<rparr>]"
  have s: "cache ?s = Some ?m" "now ?s = 5" "pendingRequests ?s ''GET/data{}'' = Some 0"
    "nextSource ?s = 1" "sent ?s = 1" "requestCancellation ?s"
    by (simp_all add: scenario_defs pipeline_defs Let_def)
  have q: "JObj [] = (if JUndefined = JUndefined then JObj [] else JUndefined)"
    by simp
  have k: "''/data_{}'' = ''/data'' @ ''_'' @ JSON_stringify ?e (JObj [])"
    by (simp add: network_def)
  have rid: "''GET/data{}'' = getRequestId ?e (plain\<lparr>method := GET, url := ''/data'', params := JObj []\<rparr>)"
    by (simp add: getRequestId_def network_def plain_def)
  have hit: "cache_get ?m 5 ''/data_{}'' = JStr ''live''"
    by (simp add: cache_get_def)
  have miss: "cache_get ?m 200000 ''/data_{}'' = JUndefined"
    by (simp add: cache_get_def)
  have later: "cache (?s\<lparr>now := 200000\<rparr>) = Some ?m"
    by (simp add: s)
  have free: "cancelPrevious plain = None"
    by (simp add: plain_def)
  show ?thesis
    using C9_cache_then_registry_then_dispatch [OF s(1) q k rid]
      C9_cache_then_registry_then_dispatch [OF later q k rid]
    by (simp add: s hit miss free)
qed

subsection \<open>C10: a falsy cached value\<close>

text \<open>
  C10: when the cache holds, for the key of a \<^verbatim>\<open>get\<close>, an entry that is still within its
  time to live and whose value is falsy, the \<^verbatim>\<open>get\<close> treats it as a miss: after the cache
  lookup the request is dispatched to the transport.
\<close>

theorem C10_falsy_cached_value_is_a_miss:
  assumes "cache s = Some m"
    and "k = u @ ''_'' @ JSON_stringify e (if p = JUndefined then JObj [] else p)"
    and "m k = Some en"
    and "now s < insertedAt en + ttl en"
    and "\<not> truthy (cvalue en)"
  shows "Suc (sent s) \<le> sent (fst (get e s u p c)) \<and>
         Dispatch (sent s) \<in> set (trace (fst (get e s u p c)))"
proof -
  define q where "q = (if p = JUndefined then JObj [] else p)"
  have k: "k = u @ ''_'' @ JSON_stringify e q"
    by (simp add: assms(2) q_def)
  have "cache_lookup s k = (s\<lparr>trace := trace s @ [CacheLookup k]\<rparr>, cvalue en)"
    using assms(1,3,4) by (simp add: cache_lookup_def cache_get_def)
  then have miss: "\<not> truthy (snd (cache_lookup s k))"
    using assms(5) by simp
  from get_miss(1) [OF q_def k miss, of c]
  have "Dispatch (sent s) \<in> set (trace (fst (get e s u p c)))"
    by (auto dest!: set_mono_prefix)
  with get_miss(2) [OF q_def k miss, of c] show ?thesis
    by simp
qed

theorem C10_falsy_cached_value_is_a_miss_witness:
  "snd (get (network [Fulfilled 200 (JNum 0), Fulfilled 200 (JNum 0)] []) fresh
          ''/data'' JUndefined plain) = Inr (Payload (JNum 0)) \<and>
   cache_get (the (cache (fst (get (network [Fulfilled 200 (JNum 0), Fulfilled 200 (JNum 0)] []) fresh
                                ''/data'' JUndefined plain)))) 5 ''/data_{}'' = JNum 0 \<and>
   sent (fst (get (network [Fulfilled 200 (JNum 0), Fulfilled 200 (JNum 0)] []) fresh
          ''/data'' JUndefined plain)) = 1 \<and>
   2 \<le> sent (fst (get (network [Fulfilled 200 (JNum 0), Fulfilled 200 (JNum 0)] [])
                 (fst (get (network [Fulfilled 200 (JNum 0), Fulfilled 200 (JNum 0)] []) fresh
                         ''/data'' JUndefined plain))
                 ''/data'' JUndefined plain)) \<and>
   Dispatch 1 \<in> set (trace (fst (get (network [Fulfilled 200 (JNum 0), Fulfilled 200 (JNum 0)] [])
                 (fst (get (network [Fulfilled 200 (JNum 0), Fulfilled 200 (JNum 0)] []) fresh
                         ''/data'' JUndefined plain))
                 ''/data'' JUndefined plain)))"
proof -
  let ?e = "network [Fulfilled 200 (JNum 0), Fulfilled 200 (JNum 0)] []"
  let ?s = "fst (get ?e fresh ''/data'' JUndefined plain)"
  let ?en = "\<lparr>cvalue = JNum 0, insertedAt = 5, ttl = 100000\<rparr>"
  let ?m = "[''/data_{}'' \<mapsto> ?en]"
  have s: "cache ?s = Some ?m" "now ?s = 5" "sent ?s = 1"
    "snd (get ?e fresh ''/data'' JUndefined plain) = Inr (Payload (JNum 0))"
    by (simp_all add: scenario_defs pipeline_defs Let_def)
  have k: "''/data_{}'' = ''/data'' @ ''_'' @ JSON_stringify ?e (if JUndefined = JUndefined then JObj [] else JUndefined)"
    by (simp add: network_def)
  have en: "?m ''/data_{}'' = Some ?en"
    by simp
  have live: "now ?s < insertedAt ?en + ttl ?en"
    by (simp add: s)
  have falsy: "\<not> truthy (cvalue ?en)"
    by simp
  show ?thesis
    using C10_falsy_cached_value_is_a_miss [OF s(1) k en live falsy, of plain]
    by (simp add: s cache_get_def)
qed

end
